theory Spec2Isabelle
  imports Main
begin

section \<open>The test file \<^verbatim>\<open>g++.dg/cpp2a/udlit-class-nttp-neg2.C\<close>\<close>

text \<open>
  The repository content under study is one C++ translation unit of thirteen lines: a
  struct with a constexpr constructor and a destructor, and the declaration of a literal
  operator template whose template parameter has that struct as its type. The comments
  carry the directives of the test harness. The file is kept here character by
  character, one string per line (the last line has no newline after it). The character
  \<open>CHR 0x5C\<close> is the backslash.
\<close>

definition source_lines :: "string list" where
  \<open>source_lines =
   [''// PR c++/88095'',
    ''// Test class non-type template parameters for literal operator templates.'',
    ''// Validate that non-literal class types are rejected.'',
    ''// { dg-do compile { target c++2a } }'',
    '''',
    ''struct non_literal_class {'',
    ''  constexpr non_literal_class(...) { }'',
    ''  ~non_literal_class() {}'',
    ''  // auto operator<=> (const non_literal_fixed_string&) = default;'',
    ''};'',
    '''',
    ''template <non_literal_class> // { dg-error "11:is not a valid type for a template non-type parameter because it is not literal" }'',
    ''int operator"" _udl();       // { dg-error "5:literal operator template .int operator''
      @ [CHR 0x5C] @ ''"'' @ [CHR 0x5C] @ ''"_udl'' @ [CHR 0x5C, CHR 0x5C] @ ''(''
      @ [CHR 0x5C, CHR 0x5C] @ ''). has invalid parameter list" }'']\<close>

text \<open>Lines are numbered from 1, as the compiler and the harness number them.\<close>

definition source_line :: "nat \<Rightarrow> string option" where
  "source_line n =
     (if 1 \<le> n \<and> n \<le> length source_lines then Some (source_lines ! (n - 1)) else None)"

section \<open>Lexical structure\<close>

text \<open>
  The translation phases that matter for this file: a \<open>//\<close> comment runs to the end of
  its line and is dropped, blanks separate tokens, and the tokens are identifiers
  (keywords included), string literals and punctuators. A token remembers the line and
  the column (both from 1, the column counting bytes) of its first character. A character
  that starts none of these forms, or a string literal that does not close on its line,
  is a lexical failure (\<open>None\<close>).
\<close>

datatype token_kind = Identifier | String_Literal | Punctuator

datatype token = Token (tk_line: nat) (tk_col: nat) (tk_kind: token_kind) (tk_text: string)

definition is_letter :: "char \<Rightarrow> bool" where
  "is_letter c =
     (let n = (of_char c :: nat) in (65 \<le> n \<and> n \<le> 90) \<or> (97 \<le> n \<and> n \<le> 122) \<or> n = 95)"

definition is_digit :: "char \<Rightarrow> bool" where
  "is_digit c = (let n = (of_char c :: nat) in 48 \<le> n \<and> n \<le> 57)"

definition is_ident_char :: "char \<Rightarrow> bool" where
  "is_ident_char c = (is_letter c \<or> is_digit c)"

definition is_blank :: "char \<Rightarrow> bool" where
  "is_blank c = (c = CHR '' '' \<or> c = CHR 0x09)"

definition punctuator_chars :: "char list" where
  "punctuator_chars = ''{}()<>~;=,&*:''"

text \<open>
  \<open>scan_string cs\<close> is the number of characters of \<open>cs\<close> up to and including the
  double quote that closes a string literal; a backslash takes the next character with it.
\<close>

fun scan_string :: "string \<Rightarrow> nat option" where
  "scan_string [] = None"
| "scan_string [c] = (if c = CHR 0x22 then Some 1 else None)"
| "scan_string (c # d # cs) =
     (if c = CHR 0x22 then Some 1
      else if c = CHR 0x5C then map_option (\<lambda>n. n + 2) (scan_string cs)
      else map_option Suc (scan_string (d # cs)))"

function lex_line :: "nat \<Rightarrow> nat \<Rightarrow> string \<Rightarrow> token list option" where
  "lex_line ln col [] = Some []"
| "lex_line ln col (c # cs) =
     (if is_blank c then lex_line ln (col + 1) cs
      else if c = CHR ''/'' \<and> take 1 cs = ''/'' then Some []
      else if is_letter c then
        map_option ((#) (Token ln col Identifier (c # takeWhile is_ident_char cs)))
          (lex_line ln (col + 1 + length (takeWhile is_ident_char cs))
             (dropWhile is_ident_char cs))
      else if c = CHR 0x22 then
        (case scan_string cs of
           None \<Rightarrow> None
         | Some n \<Rightarrow>
             map_option ((#) (Token ln col String_Literal (c # take n cs)))
               (lex_line ln (col + 1 + n) (drop n cs)))
      else if c = CHR ''.'' \<and> take 2 cs = ''..'' then
        map_option ((#) (Token ln col Punctuator ''...'')) (lex_line ln (col + 3) (drop 2 cs))
      else if c \<in> set punctuator_chars then
        map_option ((#) (Token ln col Punctuator [c])) (lex_line ln (col + 1) cs)
      else None)"
  by pat_completeness auto
termination
  by (relation "measure (\<lambda>(ln, col, s). length s)")
     (auto simp: less_Suc_eq_le length_dropWhile_le)

fun lex_lines :: "nat \<Rightarrow> string list \<Rightarrow> token list option" where
  "lex_lines ln [] = Some []"
| "lex_lines ln (l # ls) =
     (case lex_line ln 1 l of
        None \<Rightarrow> None
      | Some ts \<Rightarrow> map_option ((@) ts) (lex_lines (ln + 1) ls))"

definition lex_file :: "string list \<Rightarrow> token list option" where
  "lex_file ls = lex_lines 1 ls"

section \<open>Abstract syntax\<close>

text \<open>
  The declarations of the fragment of C++ the file is written in. A function body is
  absent (\<open>;\<close>), defaulted (\<open>= default;\<close>) or a compound statement, kept as the
  tokens between its braces. Parameter types are plain type names (the fragment has no
  pointer or reference declarators); \<open>...\<close> after them is the C-style ellipsis.
  A template parameter and a function declarator remember where they start in the file.
\<close>

type_synonym loc = "nat \<times> nat"

datatype function_body = No_Body | Defaulted | Compound "string list"

datatype member =
    Constructor (mem_constexpr: bool) (mem_params: "string list") (mem_ellipsis: bool)
      (mem_body: function_body)
  | Destructor (mem_constexpr: bool) (mem_body: function_body)
  | Data_Member string string

datatype class_definition =
  Class_Definition (class_name: string) (class_members: "member list")

datatype template_parameter =
    Type_Parameter string
  | Non_Type_Parameter (tp_type: string) (tp_pack: bool) (tp_loc: loc)

datatype declarator_id = Plain_Id string | Literal_Operator_Id string

datatype function_declaration =
  Function_Declaration (fn_return: string) (fn_id: declarator_id) (fn_loc: loc)
    (fn_params: "string list") (fn_ellipsis: bool) (fn_body: function_body)

datatype top_level =
    Class_Def class_definition
  | Function_Decl function_declaration
  | Template_Decl "template_parameter list" function_declaration
  | Object_Def string string

text \<open>
  Lines 6 to 10 of the file: \<^verbatim>\<open>struct non_literal_class\<close> with the constructor
  \<^verbatim>\<open>constexpr non_literal_class(...) { }\<close> (constexpr, no named parameter, the
  ellipsis, an empty body) and the destructor \<^verbatim>\<open>~non_literal_class() {}\<close> (not
  constexpr, an empty body). Line 9 is a comment.
\<close>

definition non_literal_class :: class_definition where
  "non_literal_class =
     Class_Definition ''non_literal_class''
       [Constructor True [] True (Compound []),
        Destructor False (Compound [])]"

text \<open>
  Lines 12 and 13: \<^verbatim>\<open>template <non_literal_class> int operator"" _udl();\<close>, a
  function template with one unnamed non-type parameter (no pack) of type
  \<open>non_literal_class\<close>, which starts at line 12, column 11; the function is the literal
  operator with the suffix \<open>_udl\<close>, its declarator starts at line 13, column 5, it
  returns \<open>int\<close>, takes no parameter and has no body.
\<close>

definition operator_udl :: function_declaration where
  "operator_udl =
     Function_Declaration ''int'' (Literal_Operator_Id ''_udl'') (13, 5) [] False No_Body"

definition translation_unit :: "top_level list" where
  "translation_unit =
     [Class_Def non_literal_class,
      Template_Decl [Non_Type_Parameter ''non_literal_class'' False (12, 11)] operator_udl]"

subsection \<open>From the syntax tree back to tokens\<close>

fun comma_separated :: "string list list \<Rightarrow> string list" where
  "comma_separated [] = []"
| "comma_separated [x] = x"
| "comma_separated (x # y # zs) = x @ '','' # comma_separated (y # zs)"

definition unparse_params :: "string list \<Rightarrow> bool \<Rightarrow> string list" where
  "unparse_params ps ell =
     ''('' # comma_separated (map (\<lambda>p. [p]) ps @ (if ell then [[''...'']] else [])) @ ['')'']"

fun unparse_body :: "function_body \<Rightarrow> string list" where
  "unparse_body No_Body = ['';'']"
| "unparse_body Defaulted = [''='', ''default'', '';'']"
| "unparse_body (Compound ts) = ''{'' # ts @ [''}'']"

definition constexpr_specifier :: "bool \<Rightarrow> string list" where
  "constexpr_specifier b = (if b then [''constexpr''] else [])"

fun unparse_member :: "string \<Rightarrow> member \<Rightarrow> string list" where
  "unparse_member cn (Constructor cx ps ell b) =
     constexpr_specifier cx @ cn # unparse_params ps ell @ unparse_body b"
| "unparse_member cn (Destructor cx b) =
     constexpr_specifier cx @ ''~'' # cn # unparse_params [] False @ unparse_body b"
| "unparse_member cn (Data_Member ty n) = [ty, n, '';'']"

fun unparse_class :: "class_definition \<Rightarrow> string list" where
  "unparse_class (Class_Definition cn ms) =
     ''struct'' # cn # ''{'' # concat (map (unparse_member cn) ms) @ [''}'', '';'']"

fun unparse_template_parameter :: "template_parameter \<Rightarrow> string list" where
  "unparse_template_parameter (Type_Parameter n) = [''typename'', n]"
| "unparse_template_parameter (Non_Type_Parameter ty pack l) =
     ty # (if pack then [''...''] else [])"

fun unparse_id :: "declarator_id \<Rightarrow> string list" where
  "unparse_id (Plain_Id n) = [n]"
| "unparse_id (Literal_Operator_Id suffix) = [''operator'', [CHR 0x22, CHR 0x22], suffix]"

fun unparse_function :: "function_declaration \<Rightarrow> string list" where
  "unparse_function (Function_Declaration ret fid l ps ell b) =
     ret # unparse_id fid @ unparse_params ps ell @ unparse_body b"

fun unparse_top_level :: "top_level \<Rightarrow> string list" where
  "unparse_top_level (Class_Def c) = unparse_class c"
| "unparse_top_level (Function_Decl f) = unparse_function f"
| "unparse_top_level (Template_Decl tps f) =
     ''template'' # ''<'' # comma_separated (map unparse_template_parameter tps)
       @ ''>'' # unparse_function f"
| "unparse_top_level (Object_Def ty n) = [ty, n, '';'']"

definition unparse :: "top_level list \<Rightarrow> string list" where
  "unparse tu = concat (map unparse_top_level tu)"

text \<open>The token that starts at a place of the file, if one does.\<close>

definition token_at :: "token list \<Rightarrow> loc \<Rightarrow> token option" where
  "token_at ts l = find (\<lambda>t. (tk_line t, tk_col t) = l) ts"

section \<open>Directives of the test harness\<close>

text \<open>
  The harness reads its directives from the raw lines of the file, comment or not: a
  directive is \<^verbatim>\<open>{ dg-name arguments }\<close>, from an opening brace that blanks and
  \<^verbatim>\<open>dg-\<close> follow to the last closing brace of the line, which a blank precedes. What
  stands between the braces is split into words the way Tcl splits a command: blanks
  separate words, braces group a word and keep it as it is, double quotes group a word
  and a backslash inside them stands for the character after it. The forms of Tcl that
  the file does not use (variable and command substitution, a backslash followed by a
  letter or a digit, a backslash inside braces) are failures (\<open>None\<close>), and a line
  whose directive fails to split gives no directive.
\<close>

datatype tcl_mode = Between | Bare | Quoted | Braced nat

fun tcl_words_from :: "tcl_mode \<Rightarrow> string \<Rightarrow> string \<Rightarrow> string list option" where
  "tcl_words_from Between acc [] = Some []"
| "tcl_words_from Bare acc [] = Some [rev acc]"
| "tcl_words_from Quoted acc [] = None"
| "tcl_words_from (Braced n) acc [] = None"
| "tcl_words_from Between acc (c # cs) =
     (if is_blank c then tcl_words_from Between [] cs
      else if c = CHR ''{'' then tcl_words_from (Braced 0) [] cs
      else if c = CHR 0x22 then tcl_words_from Quoted [] cs
      else tcl_words_from Bare [c] cs)"
| "tcl_words_from Bare acc (c # cs) =
     (if is_blank c then map_option ((#) (rev acc)) (tcl_words_from Between [] cs)
      else tcl_words_from Bare (c # acc) cs)"
| "tcl_words_from Quoted acc [c] = (if c = CHR 0x22 then Some [rev acc] else None)"
| "tcl_words_from Quoted acc (c # d # cs) =
     (if c = CHR 0x22 then map_option ((#) (rev acc)) (tcl_words_from Between [] (d # cs))
      else if c = CHR 0x5C then
        (if is_ident_char d then None else tcl_words_from Quoted (d # acc) cs)
      else if c = CHR ''$'' \<or> c = CHR ''['' then None
      else tcl_words_from Quoted (c # acc) (d # cs))"
| "tcl_words_from (Braced n) acc (c # cs) =
     (if c = CHR ''}'' then
        (case n of
           0 \<Rightarrow> map_option ((#) (rev acc)) (tcl_words_from Between [] cs)
         | Suc m \<Rightarrow> tcl_words_from (Braced m) (c # acc) cs)
      else if c = CHR ''{'' then tcl_words_from (Braced (Suc n)) (c # acc) cs
      else if c = CHR 0x5C then None
      else tcl_words_from (Braced n) (c # acc) cs)"

definition tcl_words :: "string \<Rightarrow> string list option" where
  "tcl_words s = tcl_words_from Between [] s"

definition opens_directive :: "string \<Rightarrow> bool" where
  "opens_directive cs =
     (case cs of [] \<Rightarrow> False | c # _ \<Rightarrow> is_blank c \<and> take 3 (dropWhile is_blank cs) = ''dg-'')"

text \<open>What follows the opening brace of the first directive of a line.\<close>

fun directive_start :: "string \<Rightarrow> string option" where
  "directive_start [] = None"
| "directive_start (c # cs) =
     (if c = CHR ''{'' \<and> opens_directive cs then Some cs else directive_start cs)"

text \<open>What stands before the last closing brace of the line, which a blank precedes.\<close>

definition directive_body :: "string \<Rightarrow> string option" where
  "directive_body s =
     (case dropWhile (\<lambda>c. c \<noteq> CHR ''}'') (rev s) of
        [] \<Rightarrow> None
      | _ # r \<Rightarrow> (case r of [] \<Rightarrow> None | b # _ \<Rightarrow> if is_blank b then Some (rev r) else None))"

datatype directive = Directive (dir_line: nat) (dir_name: string) (dir_args: "string list")

definition directive_of_line :: "nat \<Rightarrow> string \<Rightarrow> directive option" where
  "directive_of_line ln l =
     (case directive_start l of
        None \<Rightarrow> None
      | Some s \<Rightarrow>
          (case directive_body s of
             None \<Rightarrow> None
           | Some b \<Rightarrow>
               (case tcl_words b of
                  Some (name # args) \<Rightarrow> Some (Directive ln name args)
                | _ \<Rightarrow> None)))"

fun directives_from :: "nat \<Rightarrow> string list \<Rightarrow> directive list" where
  "directives_from ln [] = []"
| "directives_from ln (l # ls) =
     (case directive_of_line ln l of
        None \<Rightarrow> directives_from (ln + 1) ls
      | Some d \<Rightarrow> d # directives_from (ln + 1) ls)"

definition directives :: "string list \<Rightarrow> directive list" where
  "directives ls = directives_from 1 ls"

subsection \<open>\<^verbatim>\<open>dg-do\<close>: what to do with the test, and on which targets\<close>

text \<open>
  \<^verbatim>\<open>dg-do action { target keyword }\<close> names the action of the test and selects the
  runs that perform it; in a run that the selector does not hold for, the test is
  reported as unsupported and nothing is done with the file. A file without
  \<^verbatim>\<open>dg-do\<close> is compiled. What a keyword means in a run is not written in the test
  file: it is a parameter \<open>et\<close> here, from the keyword to whether it holds (\<open>None\<close> for
  a keyword the run does not know). Of the selectors, the form that the file uses is
  modelled, \<^verbatim>\<open>target\<close> followed by one keyword.
\<close>

definition selector_holds :: "(string \<Rightarrow> bool option) \<Rightarrow> string \<Rightarrow> bool option" where
  "selector_holds et sel =
     (case tcl_words sel of
        Some [t, kw] \<Rightarrow> if t = ''target'' then et kw else None
      | _ \<Rightarrow> None)"

datatype dg_action = Preprocess | Compile | Assemble | Link | Run

definition dg_action_of :: "string \<Rightarrow> dg_action option" where
  "dg_action_of =
     map_of [(''preprocess'', Preprocess), (''compile'', Compile), (''assemble'', Assemble),
             (''link'', Link), (''run'', Run)]"

datatype disposition = Perform dg_action | Unsupported | Harness_Error

definition dg_do :: "(string \<Rightarrow> bool option) \<Rightarrow> string list \<Rightarrow> disposition" where
  "dg_do et args =
     (case args of
        [a] \<Rightarrow> (case dg_action_of a of None \<Rightarrow> Harness_Error | Some act \<Rightarrow> Perform act)
      | [a, sel] \<Rightarrow>
          (case dg_action_of a of
             None \<Rightarrow> Harness_Error
           | Some act \<Rightarrow>
               (case selector_holds et sel of
                  None \<Rightarrow> Harness_Error
                | Some holds \<Rightarrow> if holds then Perform act else Unsupported))
      | _ \<Rightarrow> Harness_Error)"

definition test_disposition :: "(string \<Rightarrow> bool option) \<Rightarrow> string list \<Rightarrow> disposition" where
  "test_disposition et ls =
     (case filter (\<lambda>d. dir_name d = ''dg-do'') (directives ls) of
        [] \<Rightarrow> Perform Compile
      | [d] \<Rightarrow> dg_do et (dir_args d)
      | _ \<Rightarrow> Harness_Error)"

text \<open>
  Modelled from the spec: the table of the effective-target keywords belongs to the
  library of the harness, which is not in the file under study. The harness performs a
  test of this directory once per language standard, and, as the spec's reading of
  line 4 has it, the keyword \<^verbatim>\<open>c++NN\<close> holds in the runs under that standard or a
  later one.
\<close>

datatype cxx_std = Cxx98 | Cxx11 | Cxx14 | Cxx17 | Cxx2a

fun std_rank :: "cxx_std \<Rightarrow> nat" where
  "std_rank Cxx98 = 0"
| "std_rank Cxx11 = 1"
| "std_rank Cxx14 = 2"
| "std_rank Cxx17 = 3"
| "std_rank Cxx2a = 4"

definition effective_target :: "cxx_std \<Rightarrow> string \<Rightarrow> bool option" where
  "effective_target std kw =
     map_option (\<lambda>least. std_rank least \<le> std_rank std)
       (map_of [(''c++11'', Cxx11), (''c++14'', Cxx14), (''c++17'', Cxx17), (''c++2a'', Cxx2a)] kw)"

subsection \<open>\<^verbatim>\<open>dg-error\<close>: the diagnostics a test expects\<close>

text \<open>
  A diagnostic of the compiler has a place, a severity and a text.
  \<^verbatim>\<open>dg-error "regexp"\<close> on a line expects an error reported for that line whose text
  contains a match of the regular expression; when the expression starts with a number
  and a colon, that number is the column the error must be reported at and the
  expression is what follows. Of the regular expressions, the ones the file uses are
  modelled: a character stands for itself, \<open>.\<close> for any character, and a backslash before
  a character that is no letter or digit makes it stand for itself; an expression with
  any other special character is not modelled (\<open>None\<close>).
\<close>

datatype severity = Error | Warning | Note

datatype diagnostic =
  Diagnostic (diag_line: nat) (diag_col: nat) (diag_severity: severity) (diag_text: string)

datatype regex_atom = Any_Char | Exactly char

definition regex_special :: "char list" where
  "regex_special = ''*+?[](){}|^$''"

definition plain_atom :: "char \<Rightarrow> regex_atom" where
  "plain_atom c = (if c = CHR ''.'' then Any_Char else Exactly c)"

fun compile_regex :: "string \<Rightarrow> regex_atom list option" where
  "compile_regex [] = Some []"
| "compile_regex [c] =
     (if c = CHR 0x5C \<or> c \<in> set regex_special then None else Some [plain_atom c])"
| "compile_regex (c # d # cs) =
     (if c = CHR 0x5C then
        (if is_ident_char d then None else map_option ((#) (Exactly d)) (compile_regex cs))
      else if c \<in> set regex_special then None
      else map_option ((#) (plain_atom c)) (compile_regex (d # cs)))"

fun matches_here :: "regex_atom list \<Rightarrow> string \<Rightarrow> bool" where
  "matches_here [] s = True"
| "matches_here (a # as) [] = False"
| "matches_here (a # as) (c # cs) = ((a = Any_Char \<or> a = Exactly c) \<and> matches_here as cs)"

fun regex_search :: "regex_atom list \<Rightarrow> string \<Rightarrow> bool" where
  "regex_search as [] = matches_here as []"
| "regex_search as (c # cs) = (matches_here as (c # cs) \<or> regex_search as cs)"

definition decimal :: "string \<Rightarrow> nat" where
  "decimal ds = foldl (\<lambda>n c. 10 * n + (of_char c - 48)) 0 ds"

definition split_column :: "string \<Rightarrow> nat option \<times> string" where
  "split_column p =
     (if takeWhile is_digit p \<noteq> [] \<and> take 1 (dropWhile is_digit p) = '':''
      then (Some (decimal (takeWhile is_digit p)), drop 1 (dropWhile is_digit p))
      else (None, p))"

definition dg_error_accepts :: "directive \<Rightarrow> diagnostic \<Rightarrow> bool" where
  "dg_error_accepts d g =
     (dir_name d = ''dg-error'' \<and>
      (case dir_args d of
         [p] \<Rightarrow>
           (case compile_regex (snd (split_column p)) of
              None \<Rightarrow> False
            | Some atoms \<Rightarrow>
                diag_line g = dir_line d \<and> diag_severity g = Error \<and>
                (fst (split_column p) = None \<or> fst (split_column p) = Some (diag_col g)) \<and>
                regex_search atoms (diag_text g))
       | _ \<Rightarrow> False))"

section \<open>Literal class types\<close>

text \<open>
  The language rule for a class type to be a literal type, on the classes of the
  fragment (no base classes, no virtual functions, members that are constructors,
  destructors and data members of a named type):
  \<^item> its destructor is trivial, that is, not user-provided: implicitly declared, or
    defaulted where it is first declared (a destructor declared with a body, or declared
    in the class and defined elsewhere, is user-provided). This is the rule of C++11 to
    C++17 and of the C++2a working draft the test was written against. The published
    C++20 asks for a constexpr destructor instead: one declared \<open>constexpr\<close>, or one
    that is not user-provided. Both readings are kept, as \<open>destructor_rule\<close>. What
    either asks of the destructors of the data members follows from the last condition;
  \<^item> it is an aggregate (here: it declares no constructor) or has a constexpr
    constructor that is no copy or move constructor (with parameters of plain type
    names only, the fragment has no copy or move constructors);
  \<^item> each of its data members has a literal type: a scalar type, or a literal class
    defined earlier in the translation unit.
\<close>

datatype destructor_rule = Trivial_Destructor | Constexpr_Destructor

definition scalar_types :: "string list" where
  "scalar_types = [''bool'', ''char'', ''short'', ''int'', ''long'', ''unsigned'', ''float'', ''double'']"

fun is_constructor :: "member \<Rightarrow> bool" where
  "is_constructor (Constructor cx ps ell b) = True"
| "is_constructor m = False"

fun is_constexpr_constructor :: "member \<Rightarrow> bool" where
  "is_constexpr_constructor (Constructor cx ps ell b) = cx"
| "is_constexpr_constructor m = False"

fun is_user_provided_destructor :: "member \<Rightarrow> bool" where
  "is_user_provided_destructor (Destructor cx b) = (b \<noteq> Defaulted)"
| "is_user_provided_destructor m = False"

fun bars_literal_destructor :: "destructor_rule \<Rightarrow> member \<Rightarrow> bool" where
  "bars_literal_destructor Trivial_Destructor m = is_user_provided_destructor m"
| "bars_literal_destructor Constexpr_Destructor (Destructor cx b) = (b \<noteq> Defaulted \<and> \<not> cx)"
| "bars_literal_destructor Constexpr_Destructor m = False"

fun is_non_literal_data_member :: "string list \<Rightarrow> member \<Rightarrow> bool" where
  "is_non_literal_data_member env (Data_Member ty n) = (ty \<notin> set scalar_types \<and> ty \<notin> set env)"
| "is_non_literal_data_member env m = False"

text \<open>
  What keeps a class from being literal, condition by condition; \<open>env\<close> holds the names
  of the literal classes defined before it.
\<close>

datatype literal_obstacle =
    Destructor_Obstacle member
  | No_Constexpr_Constructor
  | Member_Obstacle member

definition literal_obstacles ::
    "destructor_rule \<Rightarrow> string list \<Rightarrow> class_definition \<Rightarrow> literal_obstacle list" where
  "literal_obstacles rule env c =
     map Destructor_Obstacle (filter (bars_literal_destructor rule) (class_members c))
     @ (if list_ex is_constexpr_constructor (class_members c)
           \<or> list_all (\<lambda>m. \<not> is_constructor m) (class_members c)
        then [] else [No_Constexpr_Constructor])
     @ map Member_Obstacle (filter (is_non_literal_data_member env) (class_members c))"

definition literal_class :: "destructor_rule \<Rightarrow> string list \<Rightarrow> class_definition \<Rightarrow> bool" where
  "literal_class rule env c = (literal_obstacles rule env c = [])"

text \<open>The classes a translation unit defines, and the literal ones among them.\<close>

fun class_definitions :: "top_level list \<Rightarrow> class_definition list" where
  "class_definitions [] = []"
| "class_definitions (Class_Def c # ds) = c # class_definitions ds"
| "class_definitions (d # ds) = class_definitions ds"

fun literal_class_names :: "destructor_rule \<Rightarrow> string list \<Rightarrow> class_definition list \<Rightarrow> string list" where
  "literal_class_names rule env [] = env"
| "literal_class_names rule env (c # cs) =
     literal_class_names rule (if literal_class rule env c then class_name c # env else env) cs"

definition is_literal_type :: "destructor_rule \<Rightarrow> top_level list \<Rightarrow> string \<Rightarrow> bool" where
  "is_literal_type rule tu ty =
     (ty \<in> set scalar_types \<or> ty \<in> set (literal_class_names rule [] (class_definitions tu)))"

definition is_class_type :: "top_level list \<Rightarrow> string \<Rightarrow> bool" where
  "is_class_type tu ty = (ty \<in> set (map class_name (class_definitions tu)))"

text \<open>
  The constructor calls a constructor admits, by the number of arguments: as many as it
  has parameters, or any number from there on when the parameter list ends in the
  ellipsis.
\<close>

fun constructor_accepts :: "member \<Rightarrow> nat \<Rightarrow> bool" where
  "constructor_accepts (Constructor cx ps ell b) n = (n = length ps \<or> (ell \<and> length ps \<le> n))"
| "constructor_accepts m n = False"

text \<open>The edit of the class that puts \<^verbatim>\<open>= default\<close> in the place of a destructor's body.\<close>

fun default_destructor :: "member \<Rightarrow> member" where
  "default_destructor (Destructor cx b) = Destructor cx Defaulted"
| "default_destructor m = m"

fun with_defaulted_destructor :: "top_level \<Rightarrow> top_level" where
  "with_defaulted_destructor (Class_Def (Class_Definition cn ms)) =
     Class_Def (Class_Definition cn (map default_destructor ms))"
| "with_defaulted_destructor d = d"

text \<open>The types of the non-type parameters of the templates of a translation unit.\<close>

fun non_type_parameter_type :: "template_parameter \<Rightarrow> string list" where
  "non_type_parameter_type (Non_Type_Parameter ty pack l) = [ty]"
| "non_type_parameter_type (Type_Parameter n) = []"

fun non_type_parameter_types :: "top_level \<Rightarrow> string list" where
  "non_type_parameter_types (Template_Decl tps f) = concat (map non_type_parameter_type tps)"
| "non_type_parameter_types d = []"

section \<open>Statements, definitions and what a program would execute\<close>

text \<open>
  The keywords that start a selection, iteration or jump statement, a handler or a
  coroutine statement. (\<open>default\<close> is left out: as a label it needs a \<open>switch\<close>, and
  \<^verbatim>\<open>= default\<close> is no statement.)
\<close>

definition control_flow_keywords :: "string list" where
  "control_flow_keywords =
     [''if'', ''else'', ''switch'', ''case'', ''for'', ''while'', ''do'', ''break'',
      ''continue'', ''return'', ''goto'', ''try'', ''catch'', ''throw'',
      ''co_await'', ''co_yield'', ''co_return'']"

definition class_keys :: "string list" where
  "class_keys = [''struct'', ''class'', ''union'', ''enum'']"

definition is_word_of :: "string list \<Rightarrow> token \<Rightarrow> bool" where
  "is_word_of ws t = (tk_kind t = Identifier \<and> tk_text t \<in> set ws)"

text \<open>The texts of the tokens of one line of a file.\<close>

definition line_tokens :: "string list \<Rightarrow> nat \<Rightarrow> string list option" where
  "line_tokens ls n = map_option (\<lambda>ts. map tk_text (filter (\<lambda>t. tk_line t = n) ts)) (lex_file ls)"

fun member_bodies :: "member \<Rightarrow> function_body list" where
  "member_bodies (Constructor cx ps ell b) = [b]"
| "member_bodies (Destructor cx b) = [b]"
| "member_bodies (Data_Member ty n) = []"

fun top_level_bodies :: "top_level \<Rightarrow> function_body list" where
  "top_level_bodies (Class_Def c) = concat (map member_bodies (class_members c))"
| "top_level_bodies (Function_Decl f) = [fn_body f]"
| "top_level_bodies (Template_Decl tps f) = [fn_body f]"
| "top_level_bodies (Object_Def ty n) = []"

fun body_tokens :: "function_body \<Rightarrow> string list" where
  "body_tokens (Compound ts) = ts"
| "body_tokens b = []"

definition statement_tokens :: "top_level list \<Rightarrow> string list" where
  "statement_tokens tu = concat (map body_tokens (concat (map top_level_bodies tu)))"

text \<open>The functions a translation unit declares at namespace scope, templates included.\<close>

fun declared_function :: "top_level \<Rightarrow> function_declaration list" where
  "declared_function (Function_Decl f) = [f]"
| "declared_function (Template_Decl tps f) = [f]"
| "declared_function d = []"

fun object_definition :: "top_level \<Rightarrow> (string \<times> string) list" where
  "object_definition (Object_Def ty n) = [(ty, n)]"
| "object_definition d = []"

text \<open>
  A program starts by initialising the objects defined at namespace scope and then
  calls \<open>main\<close>. These are the steps that this translation unit would contribute.
\<close>

datatype startup_step = Initialise string string | Call_Main

fun startup_steps_of :: "top_level \<Rightarrow> startup_step list" where
  "startup_steps_of (Object_Def ty n) = [Initialise ty n]"
| "startup_steps_of (Function_Decl f) =
     (if fn_id f = Plain_Id ''main'' \<and> fn_body f \<noteq> No_Body then [Call_Main] else [])"
| "startup_steps_of d = []"

definition startup_steps :: "top_level list \<Rightarrow> startup_step list" where
  "startup_steps tu = concat (map startup_steps_of tu)"

section \<open>The front end's check of a template parameter's type\<close>

text \<open>How a diagnostic names a type: between quotes.\<close>

definition quoted :: "string \<Rightarrow> string" where
  "quoted s = CHR 0x27 # s @ [CHR 0x27]"

text \<open>
  Modelled from the spec: the compiler's validation of template parameters and its
  emission of diagnostics are not in the file under study. The spec says that a
  non-literal class type used as the type of a template non-type parameter of a literal
  operator template is rejected with a specific diagnostic, and the directive on line 12
  of the file gives the text of that diagnostic. The model reports, in C++2a mode, for
  every non-type template parameter whose type is a class defined before the template
  and not literal, an error at the place of the parameter, naming the type. It says
  nothing of what else a compiler reports.
\<close>

fun template_parameter_errors ::
    "destructor_rule \<Rightarrow> top_level list \<Rightarrow> template_parameter \<Rightarrow> diagnostic list" where
  "template_parameter_errors rule seen (Type_Parameter n) = []"
| "template_parameter_errors rule seen (Non_Type_Parameter ty pack l) =
     (if is_class_type seen ty \<and> \<not> is_literal_type rule seen ty
      then [Diagnostic (fst l) (snd l) Error
              (quoted ty @ '' is not a valid type for a template non-type parameter because it is not literal'')]
      else [])"

fun template_errors :: "destructor_rule \<Rightarrow> top_level list \<Rightarrow> top_level \<Rightarrow> diagnostic list" where
  "template_errors rule seen (Template_Decl tps f) =
     concat (map (template_parameter_errors rule seen) tps)"
| "template_errors rule seen d = []"

fun template_errors_from ::
    "destructor_rule \<Rightarrow> top_level list \<Rightarrow> top_level list \<Rightarrow> diagnostic list" where
  "template_errors_from rule seen [] = []"
| "template_errors_from rule seen (d # ds) =
     template_errors rule seen d @ template_errors_from rule (seen @ [d]) ds"

definition cxx2a_template_parameter_errors ::
    "destructor_rule \<Rightarrow> top_level list \<Rightarrow> diagnostic list" where
  "cxx2a_template_parameter_errors rule tu = template_errors_from rule [] tu"

section \<open>The file, read\<close>

text \<open>
  What the lexer and the directive reader compute on the file. Every later statement
  about the text of the file goes through these two facts.
\<close>

lemma lex_file_source:
  \<open>lex_file source_lines = Some
    [Token 6 1 Identifier ''struct'', Token 6 8 Identifier ''non_literal_class'',
     Token 6 26 Punctuator ''{'',
     Token 7 3 Identifier ''constexpr'', Token 7 13 Identifier ''non_literal_class'',
     Token 7 30 Punctuator ''('', Token 7 31 Punctuator ''...'', Token 7 34 Punctuator '')'',
     Token 7 36 Punctuator ''{'', Token 7 38 Punctuator ''}'',
     Token 8 3 Punctuator ''~'', Token 8 4 Identifier ''non_literal_class'',
     Token 8 21 Punctuator ''('', Token 8 22 Punctuator '')'',
     Token 8 24 Punctuator ''{'', Token 8 25 Punctuator ''}'',
     Token 10 1 Punctuator ''}'', Token 10 2 Punctuator '';'',
     Token 12 1 Identifier ''template'', Token 12 10 Punctuator ''<'',
     Token 12 11 Identifier ''non_literal_class'', Token 12 28 Punctuator ''>'',
     Token 13 1 Identifier ''int'', Token 13 5 Identifier ''operator'',
     Token 13 13 String_Literal ''""'', Token 13 16 Identifier ''_udl'',
     Token 13 20 Punctuator ''('', Token 13 21 Punctuator '')'', Token 13 22 Punctuator '';'']\<close>
  by code_simp

lemma directives_source:
  \<open>directives source_lines =
    [Directive 4 ''dg-do'' [''compile'', '' target c++2a ''],
     Directive 12 ''dg-error''
       [''11:is not a valid type for a template non-type parameter because it is not literal''],
     Directive 13 ''dg-error''
       [''5:literal operator template .int operator""_udl'' @ [CHR 0x5C] @ ''('' @ [CHR 0x5C]
          @ ''). has invalid parameter list'']]\<close>
  by code_simp

text \<open>
  The syntax tree \<open>translation_unit\<close> is the file: unparsed, it gives the tokens of the
  file in their order, and the two places it records are the places of the tokens that
  start the template parameter and the declarator of the operator.
\<close>

lemma translation_unit_is_the_file:
  "map_option (map tk_text) (lex_file source_lines) = Some (unparse translation_unit)"
  by code_simp

lemma places_in_the_file:
  "map_option (\<lambda>ts. token_at ts (12, 11)) (lex_file source_lines) =
     Some (Some (Token 12 11 Identifier ''non_literal_class''))"
  "map_option (\<lambda>ts. token_at ts (fn_loc operator_udl)) (lex_file source_lines) =
     Some (Some (Token 13 5 Identifier ''operator''))"
  by code_simp+

section \<open>Literality of \<open>non_literal_class\<close>\<close>

lemma obstacles_of_non_literal_class:
  "literal_obstacles rule [] non_literal_class =
     [Destructor_Obstacle (Destructor False (Compound []))]"
  by (cases rule) (simp_all add: literal_obstacles_def non_literal_class_def)

lemma type_of_translation_unit_not_literal:
  "\<not> is_literal_type rule translation_unit ''non_literal_class''"
  by (simp add: is_literal_type_def translation_unit_def scalar_types_def literal_class_def
      obstacles_of_non_literal_class)

lemma defaulted_translation_unit:
  "map with_defaulted_destructor translation_unit =
     [Class_Def (Class_Definition ''non_literal_class''
        [Constructor True [] True (Compound []), Destructor False Defaulted]),
      Template_Decl [Non_Type_Parameter ''non_literal_class'' False (12, 11)] operator_udl]"
  by (simp add: translation_unit_def non_literal_class_def)

lemma obstacles_with_defaulted_destructor:
  "literal_obstacles rule []
     (Class_Definition ''non_literal_class''
        [Constructor True [] True (Compound []), Destructor False Defaulted]) = []"
  by (cases rule) (simp_all add: literal_obstacles_def)

text \<open>
  Under the rule of the trivial destructor, a user-provided destructor alone keeps any
  class of the fragment from being literal, whatever its other members are.
\<close>

lemma user_provided_destructor_bars_literality:
  "list_ex is_user_provided_destructor (class_members c) \<Longrightarrow>
     \<not> literal_class Trivial_Destructor env c"
  by (auto simp: literal_class_def literal_obstacles_def list_ex_iff filter_empty_conv)

text \<open>
  Claim C3. The type \<open>non_literal_class\<close> that the file declares is not a literal class
  type, because its destructor is user-provided: the tokens of the file are those of the
  syntax tree, it is the one class the translation unit defines, its one user-provided
  destructor is \<^verbatim>\<open>~non_literal_class() {}\<close>, that destructor is an obstacle to
  literality under either reading of the destructor rule, and so the type is a class
  type that is not literal. The one non-type template parameter of the file has this
  type, so the test is about a non-literal class type.
\<close>

theorem non_literal_class_is_not_literal:
  "map_option (map tk_text) (lex_file source_lines) = Some (unparse translation_unit)
   \<and> class_definitions translation_unit = [non_literal_class]
   \<and> class_name non_literal_class = ''non_literal_class''
   \<and> filter is_user_provided_destructor (class_members non_literal_class) =
       [Destructor False (Compound [])]
   \<and> Destructor_Obstacle (Destructor False (Compound []))
       \<in> set (literal_obstacles rule [] non_literal_class)
   \<and> \<not> is_literal_type rule translation_unit ''non_literal_class''
   \<and> is_class_type translation_unit ''non_literal_class''
   \<and> concat (map non_type_parameter_types translation_unit) = [''non_literal_class'']"
  using type_of_translation_unit_not_literal [of rule] translation_unit_is_the_file
  by (simp add: obstacles_of_non_literal_class)
     (simp add: translation_unit_def non_literal_class_def is_class_type_def)

text \<open>
  Claim C6. The constructor on line 7 is declared \<open>constexpr\<close> and, its parameter list
  being the ellipsis alone, admits a call with any number \<open>n\<close> of arguments; the
  destructor on line 8 is the only obstacle to the literality of the class; and in the
  translation unit where that destructor is defaulted instead, the type is literal, so
  that the condition the test is about is gone.
\<close>

theorem destructor_is_the_only_obstacle:
  "line_tokens source_lines 7 =
       Some [''constexpr'', ''non_literal_class'', ''('', ''...'', '')'', ''{'', ''}'']
   \<and> line_tokens source_lines 8 = Some [''~'', ''non_literal_class'', ''('', '')'', ''{'', ''}'']
   \<and> class_members non_literal_class =
       [Constructor True [] True (Compound []), Destructor False (Compound [])]
   \<and> filter is_constexpr_constructor (class_members non_literal_class) =
       [Constructor True [] True (Compound [])]
   \<and> constructor_accepts (Constructor True [] True (Compound [])) n
   \<and> literal_obstacles rule [] non_literal_class =
       [Destructor_Obstacle (Destructor False (Compound []))]
   \<and> map with_defaulted_destructor translation_unit =
       [Class_Def (Class_Definition ''non_literal_class''
          [Constructor True [] True (Compound []), Destructor False Defaulted]),
        Template_Decl [Non_Type_Parameter ''non_literal_class'' False (12, 11)] operator_udl]
   \<and> is_literal_type rule (map with_defaulted_destructor translation_unit) ''non_literal_class''"
proof -
  have "line_tokens source_lines 7 =
      Some [''constexpr'', ''non_literal_class'', ''('', ''...'', '')'', ''{'', ''}'']"
    and "line_tokens source_lines 8 = Some [''~'', ''non_literal_class'', ''('', '')'', ''{'', ''}'']"
    unfolding line_tokens_def lex_file_source by simp_all
  moreover have "is_literal_type rule (map with_defaulted_destructor translation_unit)
      ''non_literal_class''"
    unfolding defaulted_translation_unit
    by (simp add: is_literal_type_def literal_class_def obstacles_with_defaulted_destructor)
  ultimately show ?thesis
    using defaulted_translation_unit
    by (simp add: obstacles_of_non_literal_class) (simp add: non_literal_class_def)
qed

section \<open>The diagnostic for the template parameter\<close>

text \<open>
  Claim C1. In C++2a mode the check of the template parameter on line 12 reports an
  error at line 12, column 11, which is where the parameter's type
  \<open>non_literal_class\<close> starts in the file; the one directive of line 12 is the
  \<^verbatim>\<open>dg-error\<close> with column 11 and the text about a type that is not literal, and the
  reported error is one that this directive accepts.
\<close>

theorem non_literal_parameter_rejected:
  "Diagnostic 12 11 Error
       (quoted ''non_literal_class''
          @ '' is not a valid type for a template non-type parameter because it is not literal'')
     \<in> set (cxx2a_template_parameter_errors rule translation_unit)
   \<and> filter (\<lambda>d. dir_line d = 12) (directives source_lines) =
       [Directive 12 ''dg-error''
          [''11:is not a valid type for a template non-type parameter because it is not literal'']]
   \<and> list_ex
        (dg_error_accepts
           (Directive 12 ''dg-error''
              [''11:is not a valid type for a template non-type parameter because it is not literal'']))
        (cxx2a_template_parameter_errors rule translation_unit)
   \<and> map_option (\<lambda>ts. token_at ts (12, 11)) (lex_file source_lines) =
       Some (Some (Token 12 11 Identifier ''non_literal_class''))"
proof -
  have seen: "\<not> is_literal_type rule [Class_Def non_literal_class] ''non_literal_class''"
    by (simp add: is_literal_type_def scalar_types_def literal_class_def
        obstacles_of_non_literal_class)
  have errs: "cxx2a_template_parameter_errors rule translation_unit =
      [Diagnostic 12 11 Error
         (quoted ''non_literal_class''
            @ '' is not a valid type for a template non-type parameter because it is not literal'')]"
    using seen
    by (simp add: cxx2a_template_parameter_errors_def translation_unit_def is_class_type_def)
       (simp add: non_literal_class_def)
  have acc: "dg_error_accepts
      (Directive 12 ''dg-error''
         [''11:is not a valid type for a template non-type parameter because it is not literal''])
      (Diagnostic 12 11 Error
         (quoted ''non_literal_class''
            @ '' is not a valid type for a template non-type parameter because it is not literal''))"
    by code_simp
  show ?thesis
    unfolding errs directives_source using acc places_in_the_file(1) by simp
qed

section \<open>What the file contains\<close>

text \<open>
  Claim C4. The file has no algorithm and no control flow: its tokens are those of the
  syntax tree, none of them is a keyword of a control-flow statement, the only class-key
  among them is the \<open>struct\<close> of line 6 and the only class defined is
  \<open>non_literal_class\<close>, whose members are one constructor and one destructor; the
  function bodies of the file are the empty bodies of these two and the absent body of
  the declared operator, so that no statement stands anywhere in the file.
\<close>

theorem file_has_no_logic:
  "map_option (map tk_text) (lex_file source_lines) = Some (unparse translation_unit)
   \<and> map_option (filter (is_word_of control_flow_keywords)) (lex_file source_lines) = Some []
   \<and> map_option (filter (is_word_of class_keys)) (lex_file source_lines) =
       Some [Token 6 1 Identifier ''struct'']
   \<and> class_definitions translation_unit = [non_literal_class]
   \<and> class_members non_literal_class =
       [Constructor True [] True (Compound []), Destructor False (Compound [])]
   \<and> concat (map top_level_bodies translation_unit) = [Compound [], Compound [], No_Body]
   \<and> statement_tokens translation_unit = []"
proof -
  have "map_option (filter (is_word_of control_flow_keywords)) (lex_file source_lines) = Some []"
    unfolding lex_file_source by (simp add: is_word_of_def control_flow_keywords_def)
  moreover have "map_option (filter (is_word_of class_keys)) (lex_file source_lines) =
      Some [Token 6 1 Identifier ''struct'']"
    unfolding lex_file_source by (simp add: is_word_of_def class_keys_def)
  moreover have "concat (map top_level_bodies translation_unit) =
      [Compound [], Compound [], No_Body]"
    by (simp add: translation_unit_def non_literal_class_def operator_udl_def)
  moreover have "statement_tokens translation_unit = []"
    by (simp add: statement_tokens_def translation_unit_def non_literal_class_def
        operator_udl_def)
  moreover have "class_definitions translation_unit = [non_literal_class]"
    by (simp add: translation_unit_def)
  ultimately show ?thesis
    using translation_unit_is_the_file by (simp add: non_literal_class_def)
qed

lemma test_disposition_source:
  "test_disposition et source_lines =
     (case et ''c++2a'' of
        None \<Rightarrow> Harness_Error
      | Some holds \<Rightarrow> if holds then Perform Compile else Unsupported)"
  unfolding test_disposition_def directives_source
  by (simp add: dg_do_def dg_action_of_def selector_holds_def tcl_words_def is_blank_def)

lemma effective_target_cxx2a:
  "effective_target std ''c++2a'' = Some (std = Cxx2a)"
  by (cases std) (simp_all add: effective_target_def)

text \<open>
  Claim C7. The tokens of the file are those of the syntax tree. The one function the
  translation unit declares at namespace scope is the literal operator \<open>_udl\<close>, and it
  has no body; the unit defines no object; no token of
  the file is \<open>main\<close>; so the unit contributes no step to the start of a program. And
  whatever the keywords mean in a run (\<open>et\<close>), the harness does nothing with the file
  but compile it: the test is compiled, unsupported, or its directive is in error; it is
  never linked or run, and all there is to observe of the test is what the compilation
  reports.
\<close>

theorem no_runtime_behaviour:
  "map_option (map tk_text) (lex_file source_lines) = Some (unparse translation_unit)
   \<and> map fn_id (concat (map declared_function translation_unit)) = [Literal_Operator_Id ''_udl'']
   \<and> map fn_body (concat (map declared_function translation_unit)) = [No_Body]
   \<and> concat (map object_definition translation_unit) = []
   \<and> map_option (filter (is_word_of [''main''])) (lex_file source_lines) = Some []
   \<and> startup_steps translation_unit = []
   \<and> (test_disposition et source_lines = Perform Compile
        \<or> test_disposition et source_lines = Unsupported
        \<or> test_disposition et source_lines = Harness_Error)"
proof -
  have "map_option (filter (is_word_of [''main''])) (lex_file source_lines) = Some []"
    unfolding lex_file_source by (simp add: is_word_of_def)
  then show ?thesis
    using translation_unit_is_the_file
    by (simp add: test_disposition_source split: option.split)
       (simp add: translation_unit_def operator_udl_def startup_steps_def)
qed

section \<open>When the test is performed\<close>

text \<open>
  Claim C5. Line 4 of the file is the comment with the directive
  \<^verbatim>\<open>{ dg-do compile { target c++2a } }\<close>, the only \<^verbatim>\<open>dg-do\<close> of the file. Whatever
  the keywords mean in a run (\<open>et\<close>), the test is compiled if the keyword
  \<^verbatim>\<open>c++2a\<close> holds there and unsupported, that is, not performed, if it does not; in no
  run is it linked or run. With the keywords of the language standards: under C++2a the
  harness compiles the file, and under every standard \<open>std\<close> earlier than C++2a the test
  is not performed.
\<close>

theorem dg_do_compile_cxx2a_only:
  "source_line 4 = Some ''// { dg-do compile { target c++2a } }''
   \<and> filter (\<lambda>d. dir_name d = ''dg-do'') (directives source_lines) =
       [Directive 4 ''dg-do'' [''compile'', '' target c++2a '']]
   \<and> test_disposition et source_lines =
       (case et ''c++2a'' of
          None \<Rightarrow> Harness_Error
        | Some holds \<Rightarrow> if holds then Perform Compile else Unsupported)
   \<and> test_disposition (effective_target Cxx2a) source_lines = Perform Compile
   \<and> (std_rank std < std_rank Cxx2a \<longrightarrow>
        test_disposition (effective_target std) source_lines = Unsupported)"
proof -
  have "source_line 4 = Some ''// { dg-do compile { target c++2a } }''"
    by (simp add: source_line_def source_lines_def)
  moreover have "filter (\<lambda>d. dir_name d = ''dg-do'') (directives source_lines) =
      [Directive 4 ''dg-do'' [''compile'', '' target c++2a '']]"
    unfolding directives_source by simp
  moreover have "std_rank std < std_rank Cxx2a \<longrightarrow> std \<noteq> Cxx2a"
    by auto
  ultimately show ?thesis
    by (simp add: test_disposition_source effective_target_cxx2a)
qed

theorem dg_do_compile_cxx2a_only_witness:
  "std_rank Cxx17 < std_rank Cxx2a
   \<and> test_disposition (effective_target Cxx17) source_lines = Unsupported"
  using dg_do_compile_cxx2a_only [of "effective_target Cxx17" Cxx17]
  by (simp add: effective_target_cxx2a)

end
